theory Spec2Isabelle
  imports Complex_Main
begin

section \<open>Conventions of the embedding\<close>

text \<open>
  Python floats are idealised as \<^typ>\<open>real\<close>: every formula is evaluated exactly, with
  no rounding of intermediate results.  A Python dict with string keys is a map
  \<open>string \<rightharpoonup> 'v\<close>; \<open>d.get(k, default)\<close> is \<open>getd\<close>.  A raised exception is the
  \<open>Inl\<close> branch of a sum.
\<close>

datatype py_exc = KeyError | TypeError | ValueError

definition getd :: "('k \<rightharpoonup> 'v) \<Rightarrow> 'k \<Rightarrow> 'v \<Rightarrow> 'v" where
  "getd d k dflt = (case d k of None \<Rightarrow> dflt | Some v \<Rightarrow> v)"

text \<open>\<open>np.mean\<close> of a non-empty list of numbers.\<close>

definition np_mean :: "real list \<Rightarrow> real" where
  "np_mean xs = sum_list xs / real (length xs)"

section \<open>\<open>DataProcessor\<close> (model-processor.py)\<close>

type_synonym metrics = "string \<rightharpoonup> real"

text \<open>The list \<open>scores\<close> that \<open>_calculate_market_score\<close> builds, in the order of its appends.\<close>

definition market_sub_scores :: "metrics \<Rightarrow> real list" where
  "market_sub_scores data =
     (let volume_mcap_ratio = getd data ''volume_24h'' 0 / max (getd data ''market_cap'' 1) 1;
          price_change = getd data ''price_change_24h'' 0;
          holder_growth = getd data ''holder_growth_24h'' 0;
          liquidity_mcap_ratio = getd data ''liquidity_usd'' 0 / max (getd data ''market_cap'' 1) 1
      in [min (volume_mcap_ratio * 100) 100,
          50 + price_change / 2,
          min (holder_growth * 10) 100,
          min (liquidity_mcap_ratio * 200) 100])"

definition calculate_market_score :: "metrics \<Rightarrow> real" where
  "calculate_market_score data = np_mean (market_sub_scores data)"

definition calculate_social_score :: "(string \<rightharpoonup> metrics) \<Rightarrow> real" where
  "calculate_social_score data =
     (let sentiment_stats = getd data ''sentiment_stats'' Map.empty;
          base_score = 50 + getd sentiment_stats ''avg_polarity'' 0 * 50;
          subjectivity = getd sentiment_stats ''avg_subjectivity'' (1 / 2);
          confidence_factor = 1 - \<bar>subjectivity - 1 / 2\<bar> * (1 / 2);
          consistency_factor = 1 - min (getd sentiment_stats ''sentiment_std'' 0) (1 / 2)
      in base_score * confidence_factor * consistency_factor)"

definition calculate_meta_score :: "metrics \<Rightarrow> (string \<rightharpoonup> metrics) \<Rightarrow> real" where
  "calculate_meta_score market_data social_data =
     (let market_score = calculate_market_score market_data;
          social_score = calculate_social_score social_data
      in market_score * (6 / 10) + social_score * (4 / 10))"

text \<open>
  A valid Snapshot, as the data model states it: every numeric field is non-negative, except
  \<open>price_change_24h\<close>, a percentage that cannot fall below \<open>-100\<close>.
\<close>

definition valid_snapshot :: "metrics \<Rightarrow> bool" where
  "valid_snapshot data \<longleftrightarrow>
     (\<forall>k v. data k = Some v \<longrightarrow> (if k = ''price_change_24h'' then - 100 \<le> v else 0 \<le> v))"

text \<open>Sentiment statistics in their documented ranges: polarity in [-1,1], subjectivity in
  [0,1], a standard deviation that is not negative.\<close>

definition valid_social :: "(string \<rightharpoonup> metrics) \<Rightarrow> bool" where
  "valid_social data \<longleftrightarrow>
     (let st = getd data ''sentiment_stats'' Map.empty
      in - 1 \<le> getd st ''avg_polarity'' 0 \<and> getd st ''avg_polarity'' 0 \<le> 1 \<and>
         0 \<le> getd st ''avg_subjectivity'' (1 / 2) \<and> getd st ''avg_subjectivity'' (1 / 2) \<le> 1 \<and>
         0 \<le> getd st ''sentiment_std'' 0)"

section \<open>\<open>Predictor\<close> (model-predictor.py)\<close>

record risk_dict =
  score :: real
  level :: string
  factors :: "(string \<times> real) list"

text \<open>The body of the \<open>try\<close> block of \<open>_assess_risk\<close>: \<open>predictions['trend_confidence']\<close>
  raises \<open>KeyError\<close> when the key is absent; no denominator can be zero.\<close>

definition assess_risk_try :: "metrics \<Rightarrow> metrics \<Rightarrow> py_exc + risk_dict" where
  "assess_risk_try predictions market_data =
     (case predictions ''trend_confidence'' of
        None \<Rightarrow> Inl KeyError
      | Some confidence \<Rightarrow>
          (let volume_mcap_ratio =
                 getd market_data ''volume_24h'' 0 / max (getd market_data ''market_cap'' 1) 1;
               holder_count = getd market_data ''holder_count'' 0;
               liquidity = getd market_data ''liquidity_usd'' 0;
               risk_factors =
                 [(''confidence_risk'', 1 - confidence),
                  (''volume_risk'', max 0 (1 - volume_mcap_ratio)),
                  (''holder_risk'', max 0 (1 - holder_count / 1000)),
                  (''liquidity_risk'', max 0 (1 - liquidity / 100000))];
               risk_score = np_mean (map snd risk_factors) * 100;
               risk_level =
                 (if risk_score < 20 then ''low''
                  else if risk_score < 50 then ''moderate''
                  else if risk_score < 80 then ''high''
                  else ''very_high'')
           in Inr \<lparr>score = risk_score, level = risk_level, factors = risk_factors\<rparr>))"

text \<open>\<open>_assess_risk\<close>: the \<open>except Exception\<close> handler turns every error into the fallback.\<close>

definition assess_risk :: "metrics \<Rightarrow> metrics \<Rightarrow> risk_dict" where
  "assess_risk predictions market_data =
     (case assess_risk_try predictions market_data of
        Inr r \<Rightarrow> r
      | Inl e \<Rightarrow> \<lparr>score = 100, level = ''unknown'', factors = []\<rparr>)"

text \<open>The thresholds of the \<open>if\<close>/\<open>elif\<close> chain, as a function of the score alone.\<close>

definition risk_level_of :: "real \<Rightarrow> string" where
  "risk_level_of s =
     (if s < 20 then ''low'' else if s < 50 then ''moderate''
      else if s < 80 then ''high'' else ''very_high'')"

text \<open>The dict handed to \<open>validate_prediction\<close>; a key that may be absent is an option.\<close>

record prediction =
  trend_confidence :: "real option"
  meta_score :: "real option"
  risk_assessment :: "risk_dict option"

definition validate_prediction :: "prediction \<Rightarrow> real \<Rightarrow> py_exc + bool" where
  "validate_prediction p threshold =
     (case trend_confidence p of
        None \<Rightarrow> Inl KeyError
      | Some c \<Rightarrow>
          Inr (c \<ge> threshold \<and>
               (case meta_score p of None \<Rightarrow> 0 | Some m \<Rightarrow> m) \<ge> 50 \<and>
               map_option level (risk_assessment p) \<notin> set [Some ''high'', Some ''very_high'']))"

text \<open>The call with the default argument \<open>threshold = 0.8\<close>.\<close>

definition validate_prediction_default :: "prediction \<Rightarrow> py_exc + bool" where
  "validate_prediction_default p = validate_prediction p (8 / 10)"

section \<open>\<open>MetaService\<close> (meta-service.py)\<close>

text \<open>Instants are microseconds since the epoch, the resolution of \<open>datetime\<close>.  The
  difference of two instants is a \<open>timedelta\<close>, which Python keeps normalised as days,
  seconds in \<open>[0, 86400)\<close> and microseconds in \<open>[0, 10^6)\<close>.\<close>

record timedelta =
  days :: int
  seconds :: int
  microseconds :: int

definition timedelta_of :: "int \<Rightarrow> timedelta" where
  "timedelta_of us =
     \<lparr>days = us div 86400000000,
      seconds = (us div 1000000) mod 86400,
      microseconds = us mod 1000000\<rparr>"

record history_entry =
  h_timestamp :: int
  h_percentage :: real
  h_volume :: real

record trend =
  name :: string
  percentage :: real
  count :: int
  volume_24h :: real
  momentum :: real

record categorized =
  trending :: "trend list"
  rising :: "trend list"
  declining :: "trend list"

record cache_entry =
  c_data :: categorized
  c_timestamp :: int

text \<open>\<open>_meta_history\<close> is a \<open>defaultdict(list)\<close>: a key never written reads as \<open>[]\<close>.\<close>

record meta_service =
  cache :: "string \<rightharpoonup> cache_entry"
  cache_expiry :: int
  meta_history :: "string \<Rightarrow> history_entry list"

definition init_service :: meta_service where
  "init_service = \<lparr>cache = Map.empty, cache_expiry = 300, meta_history = (\<lambda>_. [])\<rparr>"

definition known_metas :: "string list" where
  "known_metas = [''ai'', ''defi'', ''gaming'', ''meme'', ''nft'',
                  ''metaverse'', ''web3'', ''dao'', ''play2earn'', ''gamefi'']"

text \<open>Python's \<open>round(x)\<close> rounds a half to the even neighbour; \<open>round(x, 2)\<close> does so
  at the second decimal.\<close>

definition py_round :: "real \<Rightarrow> int" where
  "py_round x =
     (let f = \<lfloor>x\<rfloor>; d = x - of_int f
      in if d < 1 / 2 then f else if 1 / 2 < d then f + 1
         else if even f then f else f + 1)"

definition py_round2 :: "real \<Rightarrow> real" where
  "py_round2 x = of_int (py_round (x * 100)) / 100"

definition is_cache_valid :: "meta_service \<Rightarrow> string \<Rightarrow> int \<Rightarrow> bool" where
  "is_cache_valid s key now =
     (case cache s key of
        Some e \<Rightarrow> (let age = timedelta_of (now - c_timestamp e) in seconds age < cache_expiry s)
      | None \<Rightarrow> False)"

definition calculate_momentum :: "meta_service \<Rightarrow> string \<Rightarrow> real" where
  "calculate_momentum s meta_name =
     (let history = meta_history s meta_name
      in if length history < 2 then 0
         else (let recent = h_percentage (history ! (length history - 1));
                   previous = h_percentage (history ! (length history - 2))
               in py_round2 (recent - previous)))"

text \<open>\<open>_calculate_trend_scores\<close>.  \<open>counts\<close> is a \<open>defaultdict(int)\<close>, a total function;
  \<open>volumes\<close> is a \<open>defaultdict(float)\<close>, kept as its list of items so that its values can be
  summed.  \<open>metas\<close> is the order in which the loop meets the elements of the set
  \<open>_known_metas\<close>, which Python leaves open.  \<open>sorted(..., reverse=True)\<close> is stable.\<close>

definition volume_of :: "(string \<times> real) list \<Rightarrow> string \<Rightarrow> real" where
  "volume_of volumes meta = getd (map_of volumes) meta 0"

definition sorted_desc :: "trend list \<Rightarrow> trend list" where
  "sorted_desc scores = sort_key (\<lambda>x. - percentage x) scores"

definition calculate_trend_scores ::
  "meta_service \<Rightarrow> string list \<Rightarrow> (string \<Rightarrow> int) \<Rightarrow> (string \<times> real) list \<Rightarrow> trend list" where
  "calculate_trend_scores s metas counts volumes =
     (let total = sum_list (map snd volumes);
          total_volume = (if total = 0 then 1 else total);
          scores =
            map (\<lambda>meta.
                   \<lparr>name = meta,
                    percentage = py_round2 (volume_of volumes meta / total_volume * 100),
                    count = counts meta,
                    volume_24h = volume_of volumes meta,
                    momentum = calculate_momentum s meta\<rparr>)
                (filter (\<lambda>meta. counts meta > 0) metas)
      in sorted_desc scores)"

definition categorize_trends :: "trend list \<Rightarrow> categorized" where
  "categorize_trends trends =
     \<lparr>trending = take 5 (filter (\<lambda>t. percentage t \<ge> 10) trends),
      rising = take 4 (filter (\<lambda>t. 5 \<le> percentage t \<and> percentage t < 10) trends),
      declining = take 4 (filter (\<lambda>t. momentum t < 0) trends)\<rparr>"

text \<open>\<open>_update_meta_history\<close>: one append and one pruning per trend; seven days are
  \<open>604800000000\<close> microseconds.\<close>

fun update_meta_history :: "meta_service \<Rightarrow> trend list \<Rightarrow> int \<Rightarrow> meta_service" where
  "update_meta_history s [] timestamp = s"
| "update_meta_history s (t # ts) timestamp =
     (let appended = meta_history s (name t) @
            [\<lparr>h_timestamp = timestamp, h_percentage = percentage t, h_volume = volume_24h t\<rparr>];
          cutoff = timestamp - 604800000000;
          kept = filter (\<lambda>h. h_timestamp h > cutoff) appended
      in update_meta_history (s\<lparr>meta_history := (meta_history s)(name t := kept)\<rparr>) ts timestamp)"

text \<open>\<open>get_meta_trends\<close>.  The awaited token analysis is outside the scoring core; its
  results \<open>counts\<close> and \<open>volumes\<close> are inputs here.  The three instants are the readings
  of \<open>datetime.now()\<close> in the validity check, in the history update and at the cache write.\<close>

definition get_meta_trends ::
  "meta_service \<Rightarrow> string list \<Rightarrow> (string \<Rightarrow> int) \<Rightarrow> (string \<times> real) list \<Rightarrow>
   int \<Rightarrow> int \<Rightarrow> int \<Rightarrow> categorized \<times> meta_service" where
  "get_meta_trends s metas counts volumes now_check now_hist now_store =
     (case (if is_cache_valid s ''meta_trends'' now_check then cache s ''meta_trends'' else None) of
        Some e \<Rightarrow> (c_data e, s)
      | None \<Rightarrow>
          (let trends = calculate_trend_scores s metas counts volumes;
               result = categorize_trends trends;
               s1 = update_meta_history s trends now_hist;
               s2 = s1\<lparr>cache := (cache s1)(''meta_trends'' \<mapsto>
                         \<lparr>c_data = result, c_timestamp = now_store\<rparr>)\<rparr>
           in (result, s2)))"

text \<open>The states the service can be in: a fresh instance, then any number of calls.
  (\<open>get_meta_details\<close>, the only other writer, stores under other cache keys and leaves the
  history alone.)\<close>

inductive reachable :: "meta_service \<Rightarrow> bool" where
  fresh: "reachable init_service"
| call: "reachable s \<Longrightarrow>
         reachable (snd (get_meta_trends s metas counts volumes now_check now_hist now_store))"

section \<open>Broadcast (main.py, helpers-util.py)\<close>

text \<open>What a call returns and what \<open>await\<close> does with it: a plain function returns
  \<open>None\<close>, and awaiting \<open>None\<close> raises \<open>TypeError\<close>.\<close>

datatype pyval = PyNone | Awaitable

fun py_await :: "pyval \<Rightarrow> py_exc + unit" where
  "py_await PyNone = Inl TypeError"
| "py_await Awaitable = Inr ()"

text \<open>\<open>ConnectionManager\<close> keeps a set of connections; \<open>delivered\<close> logs the connections
  whose \<open>send_json\<close> returned, in order.\<close>

record 'c manager =
  active_connections :: "'c set"
  delivered :: "'c list"

definition disconnect :: "'c \<Rightarrow> 'c manager \<Rightarrow> (py_exc + pyval) \<times> 'c manager" where
  "disconnect c m =
     (if c \<in> active_connections m
      then (Inr PyNone, m\<lparr>active_connections := active_connections m - {c}\<rparr>)
      else (Inl KeyError, m))"

text \<open>\<open>ConnectionManager.broadcast\<close>.  \<open>sends c\<close> tells whether \<open>send_json\<close> on \<open>c\<close>
  returns; the list is the order in which the loop meets the set's elements.  The handler
  runs \<open>await self.disconnect(connection)\<close>: the call, then the \<open>await\<close> of its value.\<close>

fun broadcast_loop :: "('c \<Rightarrow> bool) \<Rightarrow> 'c list \<Rightarrow> 'c manager \<Rightarrow> (py_exc + unit) \<times> 'c manager" where
  "broadcast_loop sends [] m = (Inr (), m)"
| "broadcast_loop sends (c # cs) m =
     (if sends c then broadcast_loop sends cs (m\<lparr>delivered := delivered m @ [c]\<rparr>)
      else (case disconnect c m of
              (Inl e, m') \<Rightarrow> (Inl e, m')
            | (Inr v, m') \<Rightarrow>
                (case py_await v of
                   Inl e \<Rightarrow> (Inl e, m')
                 | Inr _ \<Rightarrow> broadcast_loop sends cs m')))"

definition broadcast :: "('c \<Rightarrow> bool) \<Rightarrow> 'c list \<Rightarrow> 'c manager \<Rightarrow> (py_exc + unit) \<times> 'c manager" where
  "broadcast sends order m = broadcast_loop sends order m"

text \<open>\<open>WSConnectionManager\<close> keeps a list; \<open>list.remove\<close> deletes the first occurrence and
  raises \<open>ValueError\<close> when there is none.\<close>

record 'c ws_manager =
  ws_connections :: "'c list"
  ws_delivered :: "'c list"

definition ws_disconnect :: "'c \<Rightarrow> 'c ws_manager \<Rightarrow> (py_exc + pyval) \<times> 'c ws_manager" where
  "ws_disconnect c m =
     (if c \<in> set (ws_connections m)
      then (Inr PyNone, m\<lparr>ws_connections := remove1 c (ws_connections m)\<rparr>)
      else (Inl ValueError, m))"

fun ws_broadcast_loop ::
  "('c \<Rightarrow> bool) \<Rightarrow> 'c list \<Rightarrow> 'c ws_manager \<Rightarrow> (py_exc + unit) \<times> 'c ws_manager" where
  "ws_broadcast_loop sends [] m = (Inr (), m)"
| "ws_broadcast_loop sends (c # cs) m =
     (if sends c then ws_broadcast_loop sends cs (m\<lparr>ws_delivered := ws_delivered m @ [c]\<rparr>)
      else (case ws_disconnect c m of
              (Inl e, m') \<Rightarrow> (Inl e, m')
            | (Inr v, m') \<Rightarrow>
                (case py_await v of
                   Inl e \<Rightarrow> (Inl e, m')
                 | Inr _ \<Rightarrow> ws_broadcast_loop sends cs m')))"

definition ws_broadcast :: "('c \<Rightarrow> bool) \<Rightarrow> 'c ws_manager \<Rightarrow> (py_exc + unit) \<times> 'c ws_manager" where
  "ws_broadcast sends m = ws_broadcast_loop sends (ws_connections m) m"

section \<open>Predicates used in the statements\<close>

text \<open>A number with at most two decimals, which is what \<open>round(x, 2)\<close> returns, and the
  histories all of whose percentages are such numbers.\<close>

definition two_decimal :: "real \<Rightarrow> bool" where
  "two_decimal x \<longleftrightarrow> of_int \<lfloor>x * 100\<rfloor> = x * 100"

definition history_two_decimal :: "meta_service \<Rightarrow> bool" where
  "history_two_decimal s \<longleftrightarrow> (\<forall>k. \<forall>h \<in> set (meta_history s k). two_decimal (h_percentage h))"


text \<open>The order in which \<open>_calculate_trend_scores\<close> returns its list: percentages descend.\<close>

definition desc_by_percentage :: "trend \<Rightarrow> trend \<Rightarrow> bool" where
  "desc_by_percentage a b \<longleftrightarrow> percentage b \<le> percentage a"


section \<open>Concrete inputs\<close>

text \<open>A dict with no keys, a token whose price rose tenfold, and an ordinary token.\<close>

definition no_market :: metrics where
  "no_market = Map.empty"

definition no_social :: "string \<rightharpoonup> metrics" where
  "no_social = Map.empty"

definition pump_market :: metrics where
  "pump_market = [''price_change_24h'' \<mapsto> 1000]"

definition sample_market :: metrics where
  "sample_market =
     [''volume_24h'' \<mapsto> 500, ''market_cap'' \<mapsto> 1000, ''price_change_24h'' \<mapsto> 10,
      ''holder_growth_24h'' \<mapsto> 3, ''liquidity_usd'' \<mapsto> 200]"

definition sample_social :: "string \<rightharpoonup> metrics" where
  "sample_social =
     [''sentiment_stats'' \<mapsto>
        [''avg_polarity'' \<mapsto> 1 / 2, ''avg_subjectivity'' \<mapsto> 1, ''sentiment_std'' \<mapsto> 1 / 4]]"

text \<open>Markets and predictions that put the risk score on 0, 20, 50 and 80, a prediction
  without \<open>trend_confidence\<close>, and two results of \<open>predict\<close>.\<close>

definition full_market :: metrics where
  "full_market = [''volume_24h'' \<mapsto> 1000, ''market_cap'' \<mapsto> 1000,
                  ''holder_count'' \<mapsto> 1000, ''liquidity_usd'' \<mapsto> 100000]"

definition thin_market :: metrics where
  "thin_market = [''market_cap'' \<mapsto> 1000, ''holder_count'' \<mapsto> 1000, ''liquidity_usd'' \<mapsto> 100000]"

definition weak_market :: metrics where
  "weak_market = [''market_cap'' \<mapsto> 1000, ''liquidity_usd'' \<mapsto> 80000]"

definition confidence :: "real \<Rightarrow> metrics" where
  "confidence c = [''trend_confidence'' \<mapsto> c]"

definition no_predictions :: metrics where
  "no_predictions = Map.empty"

definition good_prediction :: prediction where
  "good_prediction =
     \<lparr>trend_confidence = Some (9 / 10), meta_score = Some 60,
      risk_assessment = Some \<lparr>score = 10, level = ''low'', factors = []\<rparr>\<rparr>"

definition unit_prediction :: prediction where
  "unit_prediction =
     \<lparr>trend_confidence = Some (9 / 10), meta_score = Some (1 / 2),
      risk_assessment = Some \<lparr>score = 10, level = ''low'', factors = []\<rparr>\<rparr>"


text \<open>A service whose cache was filled at instant 0, read one day and ten seconds later
  with token data that would give another result.\<close>

definition old_trend :: trend where
  "old_trend = \<lparr>name = ''ai'', percentage = 100, count = 1, volume_24h = 5, momentum = 0\<rparr>"

definition old_result :: categorized where
  "old_result = \<lparr>trending = [old_trend], rising = [], declining = []\<rparr>"

definition cached_service :: meta_service where
  "cached_service =
     \<lparr>cache = [''meta_trends'' \<mapsto> \<lparr>c_data = old_result, c_timestamp = 0\<rparr>],
      cache_expiry = 300,
      meta_history = (\<lambda>_. [])\<rparr>"

definition day_and_ten_seconds :: int where
  "day_and_ten_seconds = 86410000000"

definition only_meme :: "string \<Rightarrow> int" where
  "only_meme m = (if m = ''meme'' then 1 else 0)"

definition meme_volumes :: "(string \<times> real) list" where
  "meme_volumes = [(''meme'', 7)]"

text \<open>Two subscribers; \<open>send_json\<close> fails on subscriber 1 only.\<close>

definition sends_except_1 :: "nat \<Rightarrow> bool" where
  "sends_except_1 c = (c \<noteq> 1)"

definition two_subscribers :: "nat manager" where
  "two_subscribers = \<lparr>active_connections = {1, 2}, delivered = []\<rparr>"

definition ws_two_subscribers :: "nat ws_manager" where
  "ws_two_subscribers = \<lparr>ws_connections = [1, 2], ws_delivered = []\<rparr>"


text \<open>Two calls of \<open>get_meta_trends\<close> on a fresh service, 400 seconds apart: the share of
  "ai" in the volume is 10 percent at the first and 15 percent at the second.\<close>

definition two_counts :: "string \<Rightarrow> int" where
  "two_counts m = (if m = ''ai'' \<or> m = ''defi'' then 1 else 0)"

definition first_volumes :: "(string \<times> real) list" where
  "first_volumes = [(''ai'', 10), (''defi'', 90)]"

definition second_volumes :: "(string \<times> real) list" where
  "second_volumes = [(''ai'', 15), (''defi'', 85)]"

definition after_first_call :: meta_service where
  "after_first_call = snd (get_meta_trends init_service [''ai'', ''defi''] two_counts first_volumes 0 0 0)"

definition after_second_call :: meta_service where
  "after_second_call =
     snd (get_meta_trends after_first_call [''ai'', ''defi''] two_counts second_volumes
            400000000 400000000 400000000)"


text \<open>The categories ("ai", 30, 2), ("meme", 7, -1) and ("gaming", 3, -5), in this order,
  and a fourth that takes the remaining 60 percent of the volume.\<close>

definition ai_trend :: trend where
  "ai_trend = \<lparr>name = ''ai'', percentage = 30, count = 1, volume_24h = 30, momentum = 2\<rparr>"

definition meme_trend :: trend where
  "meme_trend = \<lparr>name = ''meme'', percentage = 7, count = 1, volume_24h = 7, momentum = - 1\<rparr>"

definition gaming_trend :: trend where
  "gaming_trend = \<lparr>name = ''gaming'', percentage = 3, count = 1, volume_24h = 3, momentum = - 5\<rparr>"

definition defi_trend :: trend where
  "defi_trend = \<lparr>name = ''defi'', percentage = 60, count = 1, volume_24h = 60, momentum = 0\<rparr>"

definition three_trends :: "trend list" where
  "three_trends = [ai_trend, meme_trend, gaming_trend]"

text \<open>A service whose history gives these three categories the momenta 2, -1 and -5,
  and the counts and volumes of a run in which the four categories occur.\<close>

definition past :: "real \<Rightarrow> history_entry" where
  "past p = \<lparr>h_timestamp = 0, h_percentage = p, h_volume = p\<rparr>"

definition trend_service :: meta_service where
  "trend_service =
     \<lparr>cache = Map.empty, cache_expiry = 300,
      meta_history = (\<lambda>k. if k = ''ai'' then [past 28, past 30]
                           else if k = ''meme'' then [past 8, past 7]
                           else if k = ''gaming'' then [past 8, past 3]
                           else [])\<rparr>"

definition four_counts :: "string \<Rightarrow> int" where
  "four_counts m = (if m \<in> set [''ai'', ''defi'', ''gaming'', ''meme''] then 1 else 0)"

definition four_volumes :: "(string \<times> real) list" where
  "four_volumes = [(''ai'', 30), (''defi'', 60), (''gaming'', 3), (''meme'', 7)]"


section \<open>The score engine\<close>

lemma market_sub_scores_length: "length (market_sub_scores data) = 4"
  by (simp add: market_sub_scores_def Let_def)

lemma getd_nonneg:
  assumes "valid_snapshot data" "k \<noteq> ''price_change_24h''" "0 \<le> d"
  shows "0 \<le> getd data k d"
  using assms by (auto simp: valid_snapshot_def getd_def split: option.splits)

lemma getd_price:
  assumes "valid_snapshot data"
  shows "- 100 \<le> getd data ''price_change_24h'' 0"
  using assms by (auto simp: valid_snapshot_def getd_def split: option.splits)

lemma ratio_nonneg:
  assumes "valid_snapshot data" "k \<noteq> ''price_change_24h''"
  shows "0 \<le> getd data k 0 / max (getd data ''market_cap'' 1) 1"
proof -
  have "0 \<le> getd data k 0" using assms by (simp add: getd_nonneg)
  moreover have "(0::real) < max (getd data ''market_cap'' 1) 1" by simp
  ultimately show ?thesis by simp
qed

lemma sub_scores_bounds:
  fixes v p h l :: real
  assumes "0 \<le> v" "0 \<le> l" "0 \<le> h" "- 100 \<le> p" "p \<le> 100"
  shows "\<forall>x \<in> set [min (v * 100) 100, 50 + p / 2, min (h * 10) 100, min (l * 200) 100].
           0 \<le> x \<and> x \<le> 100"
  using assms by simp

lemma market_sub_scores_bounds:
  assumes "valid_snapshot data" "getd data ''price_change_24h'' 0 \<le> 100"
  shows "\<forall>x \<in> set (market_sub_scores data). 0 \<le> x \<and> x \<le> 100"
proof -
  have v: "0 \<le> getd data ''volume_24h'' 0 / max (getd data ''market_cap'' 1) 1"
    using assms(1) by (rule ratio_nonneg) simp
  have l: "0 \<le> getd data ''liquidity_usd'' 0 / max (getd data ''market_cap'' 1) 1"
    using assms(1) by (rule ratio_nonneg) simp
  have h: "0 \<le> getd data ''holder_growth_24h'' 0"
    using assms(1) by (rule getd_nonneg) simp_all
  have p: "- 100 \<le> getd data ''price_change_24h'' 0"
    using assms(1) by (rule getd_price)
  show ?thesis
    unfolding market_sub_scores_def Let_def
    by (rule sub_scores_bounds [OF v l h p assms(2)])
qed

lemma np_mean_bounds:
  assumes "xs \<noteq> []" "\<forall>x \<in> set xs. lo \<le> x \<and> x \<le> hi"
  shows "lo \<le> np_mean xs \<and> np_mean xs \<le> hi"
proof -
  have n: "0 < real (length xs)" using assms(1) by simp
  have "real (length xs) * lo \<le> sum_list xs \<and> sum_list xs \<le> real (length xs) * hi"
    using assms(2) by (induction xs) (auto simp: algebra_simps)
  then show ?thesis
    using n by (simp add: np_mean_def pos_le_divide_eq pos_divide_le_eq mult.commute)
qed

lemma market_score_bounds:
  assumes "valid_snapshot data" "getd data ''price_change_24h'' 0 \<le> 100"
  shows "0 \<le> calculate_market_score data \<and> calculate_market_score data \<le> 100"
  unfolding calculate_market_score_def
proof (rule np_mean_bounds)
  show "market_sub_scores data \<noteq> []" using market_sub_scores_length [of data] by auto
  show "\<forall>x\<in>set (market_sub_scores data). 0 \<le> x \<and> x \<le> 100"
    using assms by (rule market_sub_scores_bounds)
qed

lemma social_score_bounds:
  assumes "valid_social data"
  shows "0 \<le> calculate_social_score data \<and> calculate_social_score data \<le> 100"
proof -
  define st where "st = getd data ''sentiment_stats'' Map.empty"
  define b where "b = 50 + getd st ''avg_polarity'' 0 * 50"
  define c where "c = 1 - \<bar>getd st ''avg_subjectivity'' (1 / 2) - 1 / 2\<bar> * (1 / 2)"
  define k where "k = 1 - min (getd st ''sentiment_std'' 0) (1 / 2)"
  have eq: "calculate_social_score data = b * c * k"
    by (simp add: calculate_social_score_def Let_def st_def b_def c_def k_def)
  have b: "0 \<le> b" "b \<le> 100" using assms by (simp_all add: valid_social_def Let_def st_def b_def)
  have c: "0 \<le> c" "c \<le> 1" using assms by (auto simp add: valid_social_def Let_def st_def c_def abs_if)
  have k: "0 \<le> k" "k \<le> 1" using assms by (auto simp add: valid_social_def Let_def st_def k_def min_def)
  have "b * c \<le> 100 * 1" using b c by (intro mult_mono) simp_all
  moreover have "0 \<le> b * c" using b c by simp
  ultimately have "b * c * k \<le> 100 * 1"
    using k by (intro mult_mono) simp_all
  moreover have "0 \<le> b * c * k"
    using b c k by simp
  ultimately have "b * c * k \<le> 100" "0 \<le> b * c * k" by simp_all
  then show ?thesis by (simp add: eq)
qed


lemma valid_sample_market: "valid_snapshot sample_market"
  by (simp add: valid_snapshot_def sample_market_def)
lemma valid_sample_social: "valid_social sample_social"
  by (simp add: valid_social_def sample_social_def getd_def)
lemma sample_market_score: "calculate_market_score sample_market = 175 / 4"
  by (simp add: calculate_market_score_def market_sub_scores_def getd_def np_mean_def sample_market_def)
lemma sample_social_score: "calculate_social_score sample_social = 675 / 16"
  by (simp add: calculate_social_score_def getd_def sample_social_def)

text \<open>
  Claim C1, as the code has it: \<open>calculate_meta_score\<close> returns 0.6 times the market score
  plus 0.4 times the social score, both on their 0 to 100 scale; it neither divides by 100
  nor clamps.  For a valid snapshot whose price change is at most 100 percent and sentiment
  statistics in their ranges, the result lies in [0,100].
\<close>

theorem meta_score_weighted_sum:
  "calculate_meta_score market_data social_data =
     6 / 10 * calculate_market_score market_data + 4 / 10 * calculate_social_score social_data
   \<and> (valid_snapshot market_data \<and> getd market_data ''price_change_24h'' 0 \<le> 100 \<and>
      valid_social social_data \<longrightarrow>
      0 \<le> calculate_meta_score market_data social_data \<and>
      calculate_meta_score market_data social_data \<le> 100)"
proof -
  have eq: "calculate_meta_score market_data social_data =
     6 / 10 * calculate_market_score market_data + 4 / 10 * calculate_social_score social_data"
    by (simp add: calculate_meta_score_def Let_def)
  have "0 \<le> calculate_meta_score market_data social_data \<and>
        calculate_meta_score market_data social_data \<le> 100"
    if "valid_snapshot market_data" "getd market_data ''price_change_24h'' 0 \<le> 100"
       "valid_social social_data"
    using market_score_bounds [OF that(1,2)] social_score_bounds [OF that(3)]
    unfolding eq by simp
  with eq show ?thesis by blast
qed

text \<open>The hypotheses hold for the ordinary token, whose meta score is 43.125.\<close>

theorem meta_score_weighted_sum_witness:
  "valid_snapshot sample_market \<and> getd sample_market ''price_change_24h'' 0 \<le> 100 \<and>
   valid_social sample_social \<and>
   calculate_meta_score sample_market sample_social = 345 / 8 \<and>
   0 \<le> calculate_meta_score sample_market sample_social \<and>
   calculate_meta_score sample_market sample_social \<le> 100"
proof -
  have p: "getd sample_market ''price_change_24h'' 0 \<le> 100"
    by (simp add: getd_def sample_market_def)
  show ?thesis
    using meta_score_weighted_sum [of sample_market sample_social]
      valid_sample_market valid_sample_social p sample_market_score sample_social_score
    by simp
qed

text \<open>With no keys at all the market score is 12.5 and the social score 50: the meta score
  is 27.5, which is neither 0.275 nor inside [0,1].\<close>

theorem meta_score_not_normalised:
  "calculate_meta_score no_market no_social = 55 / 2 \<and>
   calculate_meta_score no_market no_social \<noteq>
     6 / 10 * (calculate_market_score no_market / 100) +
     4 / 10 * (calculate_social_score no_social / 100) \<and>
   \<not> calculate_meta_score no_market no_social \<le> 1"
  by (simp add: calculate_meta_score_def calculate_market_score_def market_sub_scores_def
        getd_def np_mean_def calculate_social_score_def no_market_def no_social_def)

text \<open>
  Claim C2, as the code has it: for a valid snapshot whose \<open>price_change_24h\<close> is also at
  most 100, the market score is the mean of the four sub-scores, each of them lies in
  [0,100], and so does the score.  The price-action sub-score \<open>50 + price_change/2\<close> has no
  clamp of its own; the bound on the input is what keeps it in range.
\<close>

theorem market_score_mean_bounded:
  assumes "valid_snapshot data" and "getd data ''price_change_24h'' 0 \<le> 100"
  shows "calculate_market_score data = sum_list (market_sub_scores data) / 4 \<and>
         length (market_sub_scores data) = 4 \<and>
         (\<forall>x \<in> set (market_sub_scores data). 0 \<le> x \<and> x \<le> 100) \<and>
         0 \<le> calculate_market_score data \<and> calculate_market_score data \<le> 100"
  using market_sub_scores_bounds [OF assms] market_score_bounds [OF assms]
  by (simp add: calculate_market_score_def np_mean_def market_sub_scores_length)

text \<open>The ordinary token has the sub-scores 50, 55, 30 and 40 and the market score 43.75.\<close>

theorem market_score_mean_bounded_witness:
  "valid_snapshot sample_market \<and> getd sample_market ''price_change_24h'' 0 \<le> 100 \<and>
   market_sub_scores sample_market = [50, 55, 30, 40] \<and>
   calculate_market_score sample_market = 175 / 4 \<and>
   0 \<le> calculate_market_score sample_market \<and> calculate_market_score sample_market \<le> 100"
proof -
  have p: "getd sample_market ''price_change_24h'' 0 \<le> 100"
    by (simp add: getd_def sample_market_def)
  have l: "market_sub_scores sample_market = [50, 55, 30, 40]"
    by (simp add: market_sub_scores_def getd_def sample_market_def)
  show ?thesis
    using market_score_mean_bounded [OF valid_sample_market p] valid_sample_market p l
    by simp
qed

text \<open>A valid snapshot with a price change of 1000 percent has the price-action sub-score
  550 and the market score 137.5.\<close>

theorem market_score_exceeds_100:
  "valid_snapshot pump_market \<and> market_sub_scores pump_market = [0, 550, 0, 0] \<and>
   calculate_market_score pump_market = 275 / 2 \<and> \<not> calculate_market_score pump_market \<le> 100"
  by (simp add: valid_snapshot_def calculate_market_score_def market_sub_scores_def getd_def
        np_mean_def pump_market_def)


section \<open>Risk assessment and validation\<close>

lemma assess_risk_try_level:
  assumes "assess_risk_try predictions market_data = Inr r"
  shows "level r = risk_level_of (score r)"
proof (cases "predictions ''trend_confidence''")
  case None
  then show ?thesis using assms by (simp add: assess_risk_try_def)
next
  case (Some c)
  then obtain sc fs where "r = \<lparr>score = sc, level = risk_level_of sc, factors = fs\<rparr>"
    using assms unfolding assess_risk_try_def Let_def risk_level_of_def
    by (simp only: option.case sum.inject) blast
  then show ?thesis by simp
qed

lemma assess_risk_try_Inl:
  "(\<exists>e. assess_risk_try predictions market_data = Inl e) \<longleftrightarrow> predictions ''trend_confidence'' = None"
  by (auto simp: assess_risk_try_def Let_def split: option.splits)

text \<open>
  Claim C7: whenever the computation of \<open>_assess_risk\<close> goes through, the level it returns is
  a function of the score alone: below 20 it is low, from 20 and below 50 moderate, from 50
  and below 80 high, from 80 on very_high.  Whenever the computation raises, the result is
  the score 100 with the level unknown; \<open>assess_risk\<close> itself always returns a result.
\<close>

theorem assess_risk_levels:
  "(\<forall>r. assess_risk_try predictions market_data = Inr r \<longrightarrow>
        assess_risk predictions market_data = r \<and>
        level r = risk_level_of (score r) \<and>
        (score r < 20 \<longrightarrow> level r = ''low'') \<and>
        (20 \<le> score r \<and> score r < 50 \<longrightarrow> level r = ''moderate'') \<and>
        (50 \<le> score r \<and> score r < 80 \<longrightarrow> level r = ''high'') \<and>
        (80 \<le> score r \<longrightarrow> level r = ''very_high'')) \<and>
   (\<forall>e. assess_risk_try predictions market_data = Inl e \<longrightarrow>
        score (assess_risk predictions market_data) = 100 \<and>
        level (assess_risk predictions market_data) = ''unknown'')"
proof (rule conjI; intro allI impI)
  fix r
  assume t: "assess_risk_try predictions market_data = Inr r"
  then have l: "level r = risk_level_of (score r)"
    by (rule assess_risk_try_level)
  have a: "assess_risk predictions market_data = r"
    using t by (simp add: assess_risk_def)
  show "assess_risk predictions market_data = r \<and>
        level r = risk_level_of (score r) \<and>
        (score r < 20 \<longrightarrow> level r = ''low'') \<and>
        (20 \<le> score r \<and> score r < 50 \<longrightarrow> level r = ''moderate'') \<and>
        (50 \<le> score r \<and> score r < 80 \<longrightarrow> level r = ''high'') \<and>
        (80 \<le> score r \<longrightarrow> level r = ''very_high'')"
    unfolding l using a by (simp add: risk_level_of_def)
next
  fix e
  assume "assess_risk_try predictions market_data = Inl e"
  then show "score (assess_risk predictions market_data) = 100 \<and>
             level (assess_risk predictions market_data) = ''unknown''"
    by (simp add: assess_risk_def)
qed

lemma try_20: "assess_risk_try (confidence (1 / 5)) full_market =
    Inr \<lparr>score = 20, level = ''moderate'',
         factors = [(''confidence_risk'', 4 / 5), (''volume_risk'', 0), (''holder_risk'', 0), (''liquidity_risk'', 0)]\<rparr>"
  by (simp add: assess_risk_try_def confidence_def full_market_def getd_def np_mean_def)

lemma try_50: "assess_risk_try (confidence 0) thin_market =
    Inr \<lparr>score = 50, level = ''high'',
         factors = [(''confidence_risk'', 1), (''volume_risk'', 1), (''holder_risk'', 0), (''liquidity_risk'', 0)]\<rparr>"
  by (simp add: assess_risk_try_def confidence_def thin_market_def getd_def np_mean_def)

lemma try_80: "assess_risk_try (confidence 0) weak_market =
    Inr \<lparr>score = 80, level = ''very_high'',
         factors = [(''confidence_risk'', 1), (''volume_risk'', 1), (''holder_risk'', 1), (''liquidity_risk'', 1 / 5)]\<rparr>"
  by (simp add: assess_risk_try_def confidence_def weak_market_def getd_def np_mean_def)

lemma try_0: "assess_risk_try (confidence 1) full_market =
    Inr \<lparr>score = 0, level = ''low'',
         factors = [(''confidence_risk'', 0), (''volume_risk'', 0), (''holder_risk'', 0), (''liquidity_risk'', 0)]\<rparr>"
  by (simp add: assess_risk_try_def confidence_def full_market_def getd_def np_mean_def)

lemma try_none: "assess_risk_try no_predictions full_market = Inl KeyError"
  by (simp add: assess_risk_try_def no_predictions_def)

text \<open>The scores 0, 20, 50 and 80 fall into low, moderate, high and very_high; a prediction
  without \<open>trend_confidence\<close> raises \<open>KeyError\<close> inside and yields the fallback.\<close>

theorem assess_risk_levels_witness:
  "score (assess_risk (confidence 1) full_market) = 0 \<and>
   level (assess_risk (confidence 1) full_market) = ''low'' \<and>
   score (assess_risk (confidence (1 / 5)) full_market) = 20 \<and>
   level (assess_risk (confidence (1 / 5)) full_market) = ''moderate'' \<and>
   score (assess_risk (confidence 0) thin_market) = 50 \<and>
   level (assess_risk (confidence 0) thin_market) = ''high'' \<and>
   score (assess_risk (confidence 0) weak_market) = 80 \<and>
   level (assess_risk (confidence 0) weak_market) = ''very_high'' \<and>
   assess_risk_try no_predictions full_market = Inl KeyError \<and>
   score (assess_risk no_predictions full_market) = 100 \<and>
   level (assess_risk no_predictions full_market) = ''unknown''"
proof -
  note r0 = assess_risk_levels [of "confidence 1" full_market,
      THEN conjunct1, rule_format, OF try_0, THEN conjunct1]
  note r20 = assess_risk_levels [of "confidence (1 / 5)" full_market,
      THEN conjunct1, rule_format, OF try_20, THEN conjunct1]
  note r50 = assess_risk_levels [of "confidence 0" thin_market,
      THEN conjunct1, rule_format, OF try_50, THEN conjunct1]
  note r80 = assess_risk_levels [of "confidence 0" weak_market,
      THEN conjunct1, rule_format, OF try_80, THEN conjunct1]
  note rn = assess_risk_levels [of no_predictions full_market,
      THEN conjunct2, rule_format, OF try_none]
  show ?thesis
    using rn try_none by (simp add: r0 r20 r50 r80)
qed

text \<open>
  Claim C10: \<open>validate_prediction\<close> returns \<open>True\<close> exactly when \<open>trend_confidence\<close> is at
  least the threshold, \<open>meta_score\<close> is present and at least 50, and the level of the risk
  assessment is neither high nor very_high; so a prediction whose meta score lies in [0,1]
  is never validated.  The default threshold is 0.8.
\<close>

theorem validate_prediction_iff:
  "(validate_prediction p threshold = Inr True \<longleftrightarrow>
      (\<exists>c. trend_confidence p = Some c \<and> threshold \<le> c) \<and>
      (\<exists>m. meta_score p = Some m \<and> 50 \<le> m) \<and>
      (\<forall>r. risk_assessment p = Some r \<longrightarrow> level r \<noteq> ''high'' \<and> level r \<noteq> ''very_high'')) \<and>
   (\<forall>m. meta_score p = Some m \<and> 0 \<le> m \<and> m \<le> 1 \<longrightarrow>
      validate_prediction p threshold \<noteq> Inr True) \<and>
   validate_prediction_default p = validate_prediction p (8 / 10)"
  by (auto simp: validate_prediction_def validate_prediction_default_def split: option.splits)

text \<open>A confident, low-risk prediction with meta score 60 is validated; the same prediction
  with meta score 0.5 is not.\<close>

theorem validate_prediction_iff_witness:
  "validate_prediction_default good_prediction = Inr True \<and>
   meta_score unit_prediction = Some (1 / 2) \<and>
   validate_prediction_default unit_prediction \<noteq> Inr True"
proof -
  have c: "\<exists>c. trend_confidence good_prediction = Some c \<and> 8 / 10 \<le> c"
    by (rule exI [of _ "9 / 10"]) (simp add: good_prediction_def)
  have m: "\<exists>m. meta_score good_prediction = Some m \<and> 50 \<le> m"
    by (rule exI [of _ 60]) (simp add: good_prediction_def)
  have l: "\<forall>r. risk_assessment good_prediction = Some r \<longrightarrow>
             level r \<noteq> ''high'' \<and> level r \<noteq> ''very_high''"
    by (auto simp: good_prediction_def)
  have d: "validate_prediction_default q = validate_prediction q (8 / 10)" for q
    using validate_prediction_iff [of q "8 / 10"] by (elim conjE)
  have g: "validate_prediction good_prediction (8 / 10) = Inr True"
    using validate_prediction_iff [of good_prediction "8 / 10", THEN conjunct1] c m l
    by (elim iffE) blast
  have u: "meta_score unit_prediction = Some (1 / 2) \<and> (0::real) \<le> 1 / 2 \<and> (1::real) / 2 \<le> 1"
    by (simp add: unit_prediction_def)
  have n: "validate_prediction unit_prediction (8 / 10) \<noteq> Inr True"
    using validate_prediction_iff [of unit_prediction "8 / 10",
        THEN conjunct2, THEN conjunct1, rule_format, OF u] .
  show ?thesis
    using g n u by (simp only: d) simp
qed


section \<open>Cache validity\<close>

lemma is_cache_valid_iff:
  "is_cache_valid s key now \<longleftrightarrow>
     (\<exists>e. cache s key = Some e \<and> ((now - c_timestamp e) div 1000000) mod 86400 < cache_expiry s)"
  by (simp add: is_cache_valid_def timedelta_of_def Let_def split: option.splits)

text \<open>Within the first day after the write the check is the one intended.\<close>

lemma is_cache_valid_within_a_day:
  assumes "cache s key = Some e" "cache_expiry s = 300"
    and "0 \<le> now - c_timestamp e" "now - c_timestamp e < 86400000000"
  shows "is_cache_valid s key now \<longleftrightarrow> now - c_timestamp e < 300000000"
proof -
  define d where "d = now - c_timestamp e"
  have "0 \<le> d div 1000000" "d div 1000000 < 86400"
    using assms(3,4) unfolding d_def by auto
  then have "(d div 1000000) mod 86400 = d div 1000000" by simp
  moreover have "d div 1000000 < 300 \<longleftrightarrow> d < 300000000" by auto
  ultimately show ?thesis
    using assms(1,2) unfolding is_cache_valid_iff d_def by simp
qed

text \<open>
  Claim C4 asks that an entry older than 300 seconds is never served.  \<open>_is_cache_valid\<close>
  compares \<open>age.seconds\<close>, the seconds component of the normalised difference, which leaves
  the days out: one day and ten seconds after the write the component is 10, the entry
  counts as valid, and \<open>get_meta_trends\<close> returns the old result and changes nothing.
\<close>

theorem stale_entry_served_after_a_day:
  "cache cached_service ''meta_trends'' = Some \<lparr>c_data = old_result, c_timestamp = 0\<rparr> \<and>
   \<not> day_and_ten_seconds - 0 < 300 * 1000000 \<and>
   seconds (timedelta_of (day_and_ten_seconds - 0)) = 10 \<and>
   is_cache_valid cached_service ''meta_trends'' day_and_ten_seconds \<and>
   get_meta_trends cached_service known_metas only_meme meme_volumes
       day_and_ten_seconds day_and_ten_seconds day_and_ten_seconds
     = (old_result, cached_service)"
  by (simp add: get_meta_trends_def is_cache_valid_def timedelta_of_def cached_service_def
        day_and_ten_seconds_def)


section \<open>Broadcast to subscribers\<close>

text \<open>Whenever one \<open>send_json\<close> of the loop fails, the broadcast ends in \<open>TypeError\<close>: the
  handler removes the connection and then awaits \<open>None\<close>.\<close>

lemma broadcast_loop_raises:
  assumes "\<exists>c \<in> set order. \<not> sends c" "set order \<subseteq> active_connections m" "distinct order"
  shows "fst (broadcast_loop sends order m) = Inl TypeError"
  using assms
proof (induction order arbitrary: m)
  case Nil
  then show ?case by simp
next
  case (Cons c cs)
  show ?case
  proof (cases "sends c")
    case True
    with Cons.prems have "\<exists>c \<in> set cs. \<not> sends c" by auto
    moreover have "set cs \<subseteq> active_connections (m\<lparr>delivered := delivered m @ [c]\<rparr>)"
      using Cons.prems by simp
    moreover have "distinct cs" using Cons.prems by simp
    ultimately show ?thesis using True Cons.IH by simp
  next
    case False
    moreover have "c \<in> active_connections m" using Cons.prems by simp
    ultimately show ?thesis by (simp add: disconnect_def)
  qed
qed

text \<open>
  Claim C9 asks that a failed delivery removes that subscriber, reaches all others and does
  not raise.  With subscribers 1 and 2, of which 1 fails: met first, 1 is removed, the
  broadcast raises \<open>TypeError\<close> and 2 receives nothing; met second, 2 has received the
  message and the broadcast still raises.  The list-based manager does the same.
\<close>

theorem broadcast_raises_on_failed_send:
  "broadcast sends_except_1 [1, 2] two_subscribers =
     (Inl TypeError, \<lparr>active_connections = {2}, delivered = []\<rparr>) \<and>
   broadcast sends_except_1 [2, 1] two_subscribers =
     (Inl TypeError, \<lparr>active_connections = {2}, delivered = [2]\<rparr>) \<and>
   ws_broadcast sends_except_1 ws_two_subscribers =
     (Inl TypeError, \<lparr>ws_connections = [2], ws_delivered = []\<rparr>)"
  by (auto simp: broadcast_def ws_broadcast_def disconnect_def ws_disconnect_def sends_except_1_def
        two_subscribers_def ws_two_subscribers_def)


section \<open>Momentum\<close>

lemma py_round_of_int: "py_round (of_int n) = n"
  by (simp add: py_round_def)

lemma two_decimalD: "two_decimal x \<Longrightarrow> \<exists>n::int. x * 100 = of_int n"
  unfolding two_decimal_def by metis

lemma two_decimalI: "x * 100 = of_int (n::int) \<Longrightarrow> two_decimal x"
  unfolding two_decimal_def by simp

lemma two_decimal_py_round2: "two_decimal (py_round2 x)"
  by (rule two_decimalI [of _ "py_round (x * 100)"]) (simp add: py_round2_def)

lemma py_round2_id:
  assumes "two_decimal x"
  shows "py_round2 x = x"
proof -
  from assms obtain n :: int where n: "x * 100 = of_int n" by (auto dest: two_decimalD)
  then have "py_round2 x = of_int n / 100"
    by (simp add: py_round2_def py_round_of_int)
  also have "\<dots> = x" using n by simp
  finally show ?thesis .
qed

lemma two_decimal_diff:
  assumes "two_decimal a" "two_decimal b"
  shows "two_decimal (a - b)"
proof -
  from assms obtain m n :: int where "a * 100 = of_int m" "b * 100 = of_int n"
    by (auto dest!: two_decimalD)
  then have "(a - b) * 100 = of_int (m - n)" by (simp add: algebra_simps)
  then show ?thesis by (rule two_decimalI)
qed

text \<open>The invariant: every call stores rounded percentages only.\<close>

lemma calculate_trend_scores_two_decimal:
  "\<forall>t \<in> set (calculate_trend_scores s metas counts volumes). two_decimal (percentage t)"
  by (auto simp: calculate_trend_scores_def sorted_desc_def Let_def two_decimal_py_round2)

lemma update_meta_history_two_decimal:
  assumes "history_two_decimal s" "\<forall>t \<in> set ts. two_decimal (percentage t)"
  shows "history_two_decimal (update_meta_history s ts timestamp)"
  using assms
proof (induction ts arbitrary: s)
  case Nil
  then show ?case by simp
next
  case (Cons t ts)
  let ?kept = "filter (\<lambda>h. h_timestamp h > timestamp - 604800000000)
     (meta_history s (name t) @
       [\<lparr>h_timestamp = timestamp, h_percentage = percentage t, h_volume = volume_24h t\<rparr>])"
  let ?s' = "s\<lparr>meta_history := (meta_history s)(name t := ?kept)\<rparr>"
  have "\<forall>h \<in> set ?kept. two_decimal (h_percentage h)"
    using Cons.prems by (auto simp: history_two_decimal_def)
  then have "history_two_decimal ?s'"
    using Cons.prems(1) by (simp add: history_two_decimal_def)
  moreover have "\<forall>t \<in> set ts. two_decimal (percentage t)"
    using Cons.prems(2) by simp
  ultimately have "history_two_decimal (update_meta_history ?s' ts timestamp)"
    by (rule Cons.IH)
  then show ?case by (simp add: Let_def)
qed

lemma get_meta_trends_two_decimal:
  assumes "history_two_decimal s"
  shows "history_two_decimal (snd (get_meta_trends s metas counts volumes t1 t2 t3))"
proof (cases "is_cache_valid s ''meta_trends'' t1 \<and> cache s ''meta_trends'' \<noteq> None")
  case True
  then show ?thesis using assms by (auto simp: get_meta_trends_def)
next
  case False
  have "history_two_decimal
          (update_meta_history s (calculate_trend_scores s metas counts volumes) t2)"
    using assms calculate_trend_scores_two_decimal by (rule update_meta_history_two_decimal)
  then have "history_two_decimal
          (update_meta_history s (calculate_trend_scores s metas counts volumes) t2
             \<lparr>cache := c\<rparr>)" for c
    by (simp add: history_two_decimal_def)
  then show ?thesis
    using False by (auto simp: get_meta_trends_def Let_def split: option.splits)
qed

lemma reachable_two_decimal: "reachable s \<Longrightarrow> history_two_decimal s"
proof (induction rule: reachable.induct)
  case fresh
  show ?case by (simp add: history_two_decimal_def init_service_def)
next
  case (call s metas counts volumes now_check now_hist now_store)
  then show ?case by (simp add: get_meta_trends_two_decimal)
qed

lemma momentum_eq:
  assumes "reachable s"
  shows "calculate_momentum s key =
           (let history = meta_history s key
            in if length history < 2 then 0
               else h_percentage (history ! (length history - 1)) -
                    h_percentage (history ! (length history - 2)))"
proof (cases "length (meta_history s key) < 2")
  case True
  then show ?thesis by (simp add: calculate_momentum_def)
next
  case False
  let ?h = "meta_history s key"
  have inv: "history_two_decimal s" using assms by (rule reachable_two_decimal)
  have "?h ! (length ?h - 1) \<in> set ?h" "?h ! (length ?h - 2) \<in> set ?h"
    using False by simp_all
  then have "two_decimal (h_percentage (?h ! (length ?h - 1)))"
    "two_decimal (h_percentage (?h ! (length ?h - 2)))"
    using inv by (simp_all add: history_two_decimal_def)
  then have "two_decimal (h_percentage (?h ! (length ?h - 1)) - h_percentage (?h ! (length ?h - 2)))"
    by (rule two_decimal_diff)
  then show ?thesis
    using False by (simp add: calculate_momentum_def Let_def py_round2_id)
qed

text \<open>
  Claim C8: in every state the service can reach, the momentum of a key is the percentage of
  its most recent history entry minus that of the entry before, and 0 when the key has fewer
  than two entries; with the history values 10 and 15 it is 5.  (The code rounds the
  difference to two decimals, which changes nothing: every stored percentage has two.)
\<close>

theorem momentum_is_last_difference:
  assumes "reachable s"
  shows "calculate_momentum s key =
           (let history = meta_history s key
            in if length history < 2 then 0
               else h_percentage (history ! (length history - 1)) -
                    h_percentage (history ! (length history - 2))) \<and>
         (map h_percentage (meta_history s key) = [10, 15] \<longrightarrow> calculate_momentum s key = 5)"
proof (rule conjI)
  note eq = momentum_eq [OF assms, of key]
  show "calculate_momentum s key =
           (let history = meta_history s key
            in if length history < 2 then 0
               else h_percentage (history ! (length history - 1)) -
                    h_percentage (history ! (length history - 2)))"
    by (rule eq)
  show "map h_percentage (meta_history s key) = [10, 15] \<longrightarrow> calculate_momentum s key = 5"
  proof
    assume m: "map h_percentage (meta_history s key) = [10, 15]"
    then obtain a b where h: "meta_history s key = [a, b]"
      and ab: "h_percentage a = 10" "h_percentage b = 15"
      by auto
    show "calculate_momentum s key = 5"
      unfolding eq by (simp add: h ab)
  qed
qed

lemma first_call_trends:
  "calculate_trend_scores init_service [''ai'', ''defi''] two_counts first_volumes =
     [\<lparr>name = ''defi'', percentage = 90, count = 1, volume_24h = 90, momentum = 0\<rparr>,
      \<lparr>name = ''ai'', percentage = 10, count = 1, volume_24h = 10, momentum = 0\<rparr>]"
  by (simp add: calculate_trend_scores_def sorted_desc_def two_counts_def first_volumes_def
        volume_of_def getd_def py_round2_def py_round_def calculate_momentum_def init_service_def)

lemma after_first_call_history:
  "meta_history after_first_call ''ai'' = [\<lparr>h_timestamp = 0, h_percentage = 10, h_volume = 10\<rparr>]"
  "meta_history after_first_call ''defi'' = [\<lparr>h_timestamp = 0, h_percentage = 90, h_volume = 90\<rparr>]"
  "cache after_first_call ''meta_trends'' \<noteq> None"
  "c_timestamp (the (cache after_first_call ''meta_trends'')) = 0"
  "cache_expiry after_first_call = 300"
  by (simp_all add: after_first_call_def get_meta_trends_def is_cache_valid_def first_call_trends
        Let_def)
    (simp_all add: init_service_def)

lemma second_call_trends:
  "calculate_trend_scores after_first_call [''ai'', ''defi''] two_counts second_volumes =
     [\<lparr>name = ''defi'', percentage = 85, count = 1, volume_24h = 85, momentum = 0\<rparr>,
      \<lparr>name = ''ai'', percentage = 15, count = 1, volume_24h = 15, momentum = 0\<rparr>]"
  by (simp add: calculate_trend_scores_def sorted_desc_def two_counts_def second_volumes_def
        volume_of_def getd_def py_round2_def py_round_def calculate_momentum_def
        after_first_call_history)

lemma second_call_recomputes: "\<not> is_cache_valid after_first_call ''meta_trends'' 400000000"
  using after_first_call_history(3,4,5)
  by (auto simp: is_cache_valid_def timedelta_of_def Let_def split: option.splits)

lemma after_second_call_history:
  "meta_history after_second_call ''ai'' =
     [\<lparr>h_timestamp = 0, h_percentage = 10, h_volume = 10\<rparr>,
      \<lparr>h_timestamp = 400000000, h_percentage = 15, h_volume = 15\<rparr>]"
  by (simp add: after_second_call_def get_meta_trends_def second_call_recomputes
        second_call_trends Let_def after_first_call_history)

lemma reachable_after_second_call: "reachable after_second_call"
  unfolding after_second_call_def after_first_call_def
  by (intro reachable.call reachable.fresh)

text \<open>After the two calls the history of "ai" holds 10 and 15 and its momentum is 5; after
  the first call alone it holds one entry and the momentum is 0.\<close>

theorem momentum_is_last_difference_witness:
  "reachable after_second_call \<and>
   map h_percentage (meta_history after_second_call ''ai'') = [10, 15] \<and>
   calculate_momentum after_second_call ''ai'' = 5 \<and>
   reachable after_first_call \<and>
   map h_percentage (meta_history after_first_call ''ai'') = [10] \<and>
   calculate_momentum after_first_call ''ai'' = 0"
proof -
  have r1: "reachable after_first_call"
    unfolding after_first_call_def by (intro reachable.call reachable.fresh)
  have m: "map h_percentage (meta_history after_second_call ''ai'') = [10, 15]"
    by (simp add: after_second_call_history)
  have "calculate_momentum after_second_call ''ai'' = 5"
    using momentum_is_last_difference [OF reachable_after_second_call, of "''ai''"] m by blast
  moreover have "calculate_momentum after_first_call ''ai'' = 0"
    using momentum_is_last_difference [OF r1, of "''ai''"]
    by (simp add: after_first_call_history)
  ultimately show ?thesis
    using r1 reachable_after_second_call m by (simp add: after_first_call_history)
qed


section \<open>The trend classifier\<close>

lemma categorize_three_trends:
  "categorize_trends three_trends =
     \<lparr>trending = [ai_trend], rising = [meme_trend], declining = [meme_trend, gaming_trend]\<rparr>"
  by (simp add: categorize_trends_def three_trends_def ai_trend_def meme_trend_def gaming_trend_def)

lemma four_scores:
  "calculate_trend_scores trend_service known_metas four_counts four_volumes =
     [defi_trend, ai_trend, meme_trend, gaming_trend]"
  by (simp add: calculate_trend_scores_def sorted_desc_def known_metas_def four_counts_def
        four_volumes_def volume_of_def getd_def py_round2_def py_round_def calculate_momentum_def
        trend_service_def past_def defi_trend_def ai_trend_def meme_trend_def gaming_trend_def)


lemma sorted_desc_sorted: "sorted_wrt desc_by_percentage (sorted_desc ts)"
proof -
  have "sorted (map (\<lambda>x. - percentage x) (sort_key (\<lambda>x. - percentage x) ts))"
    by (rule sorted_sort_key)
  then show ?thesis
    by (simp add: sorted_map sorted_desc_def desc_by_percentage_def [abs_def])
qed

lemma calculate_trend_scores_sorted:
  "sorted_wrt desc_by_percentage (calculate_trend_scores s metas counts volumes)"
  by (simp add: calculate_trend_scores_def Let_def sorted_desc_sorted)

lemma take_filter_sorted:
  "sorted_wrt R ts \<Longrightarrow> sorted_wrt R (take n (filter P ts))"
  by (simp add: sorted_wrt_filter)

lemma take_filter_members: "\<forall>t \<in> set (take n (filter P ts)). P t \<and> t \<in> set ts"
  using set_take_subset [of n "filter P ts"] by auto

lemma take_top:
  assumes "sorted_wrt R xs" "x \<in> set xs" "x \<notin> set (take n xs)" "u \<in> set (take n xs)"
  shows "R u x"
proof -
  have "set xs = set (take n xs) \<union> set (drop n xs)"
    by (metis append_take_drop_id set_append)
  with assms(2,3) have x: "x \<in> set (drop n xs)" by simp
  from assms(1) have "sorted_wrt R (take n xs @ drop n xs)" by simp
  then have "\<forall>a \<in> set (take n xs). \<forall>b \<in> set (drop n xs). R a b"
    unfolding sorted_wrt_append by simp
  with x assms(4) show ?thesis by simp
qed

lemma take_filter_top:
  assumes "sorted_wrt desc_by_percentage ts"
  shows "\<forall>t \<in> set ts. P t \<and> t \<notin> set (take n (filter P ts)) \<longrightarrow>
           (\<forall>u \<in> set (take n (filter P ts)). percentage t \<le> percentage u)"
proof (intro ballI impI)
  fix t u
  assume t: "t \<in> set ts" "P t \<and> t \<notin> set (take n (filter P ts))"
    and u: "u \<in> set (take n (filter P ts))"
  have a: "sorted_wrt desc_by_percentage (filter P ts)"
    using assms by (rule sorted_wrt_filter)
  have b: "t \<in> set (filter P ts)" using t by simp
  have c: "t \<notin> set (take n (filter P ts))" using t(2) by simp
  have "desc_by_percentage u t"
    by (rule take_top [OF a b c u])
  then show "percentage t \<le> percentage u" by (simp add: desc_by_percentage_def)
qed

text \<open>
  Claim C6, as the code has it.  The list that \<open>_calculate_trend_scores\<close> hands to
  \<open>_categorize_trends\<close> is sorted by descending percentage, and each bucket keeps that
  order: trending holds the first 5 entries with percentage at least 10, rising the first 4
  with percentage from 5 and below 10, declining the first 4 with negative momentum.  All
  three are therefore sorted by descending percentage, declining included; an entry that
  qualifies and is left out finds the bucket full and has a percentage no greater than any
  member's.
\<close>

theorem buckets_in_percentage_order:
  "(let scores = calculate_trend_scores s metas counts volumes;
        r = categorize_trends scores
    in sorted_wrt desc_by_percentage scores \<and>
       trending r = take 5 (filter (\<lambda>t. 10 \<le> percentage t) scores) \<and>
       rising r = take 4 (filter (\<lambda>t. 5 \<le> percentage t \<and> percentage t < 10) scores) \<and>
       declining r = take 4 (filter (\<lambda>t. momentum t < 0) scores) \<and>
       sorted_wrt desc_by_percentage (trending r) \<and>
       sorted_wrt desc_by_percentage (rising r) \<and>
       sorted_wrt desc_by_percentage (declining r) \<and>
       length (trending r) \<le> 5 \<and> length (rising r) \<le> 4 \<and> length (declining r) \<le> 4 \<and>
       (\<forall>t \<in> set (trending r). t \<in> set scores \<and> 10 \<le> percentage t) \<and>
       (\<forall>t \<in> set (rising r). t \<in> set scores \<and> 5 \<le> percentage t \<and> percentage t < 10) \<and>
       (\<forall>t \<in> set (declining r). t \<in> set scores \<and> momentum t < 0) \<and>
       (\<forall>t \<in> set scores. 10 \<le> percentage t \<and> t \<notin> set (trending r) \<longrightarrow>
          length (trending r) = 5 \<and> (\<forall>u \<in> set (trending r). percentage t \<le> percentage u)) \<and>
       (\<forall>t \<in> set scores. (5 \<le> percentage t \<and> percentage t < 10) \<and> t \<notin> set (rising r) \<longrightarrow>
          length (rising r) = 4 \<and> (\<forall>u \<in> set (rising r). percentage t \<le> percentage u)) \<and>
       (\<forall>t \<in> set scores. momentum t < 0 \<and> t \<notin> set (declining r) \<longrightarrow>
          length (declining r) = 4 \<and> (\<forall>u \<in> set (declining r). percentage t \<le> percentage u)))"
proof -
  define scores where "scores = calculate_trend_scores s metas counts volumes"
  have srt: "sorted_wrt desc_by_percentage scores"
    unfolding scores_def by (rule calculate_trend_scores_sorted)
  have full: "length (take n (filter P scores)) = n"
    if "t \<in> set scores" "P t \<and> t \<notin> set (take n (filter P scores))" for P n t
  proof (rule ccontr)
    assume "length (take n (filter P scores)) \<noteq> n"
    then have "length (filter P scores) \<le> n" by simp
    then have "take n (filter P scores) = filter P scores" by simp
    with that show False by simp
  qed
  have top: "length (take n (filter P scores)) = n \<and>
             (\<forall>u \<in> set (take n (filter P scores)). percentage t \<le> percentage u)"
    if "t \<in> set scores" "P t \<and> t \<notin> set (take n (filter P scores))" for P n t
    using full [OF that] take_filter_top [OF srt, of P n] that by blast
  have mem: "\<forall>t \<in> set (take n (filter P scores)). t \<in> set scores \<and> P t" for P n
    using take_filter_members [of n P scores] by blast
  have sub: "sorted_wrt desc_by_percentage (take n (filter P scores))" for P n
    using srt by (rule take_filter_sorted)
  let ?T = "\<lambda>t. 10 \<le> percentage t"
  let ?R = "\<lambda>t. 5 \<le> percentage t \<and> percentage t < 10"
  let ?D = "\<lambda>t. momentum t < 0"
  have r: "trending (categorize_trends scores) = take 5 (filter ?T scores)"
    "rising (categorize_trends scores) = take 4 (filter ?R scores)"
    "declining (categorize_trends scores) = take 4 (filter ?D scores)"
    by (simp_all add: categorize_trends_def)
  have len: "length (take 5 (filter ?T scores)) \<le> 5" "length (take 4 (filter ?R scores)) \<le> 4"
    "length (take 4 (filter ?D scores)) \<le> 4"
    by simp_all
  have topT: "\<forall>t \<in> set scores. ?T t \<and> t \<notin> set (take 5 (filter ?T scores)) \<longrightarrow>
      length (take 5 (filter ?T scores)) = 5 \<and>
      (\<forall>u \<in> set (take 5 (filter ?T scores)). percentage t \<le> percentage u)"
    using top [of _ ?T 5] by blast
  have topR: "\<forall>t \<in> set scores. ?R t \<and> t \<notin> set (take 4 (filter ?R scores)) \<longrightarrow>
      length (take 4 (filter ?R scores)) = 4 \<and>
      (\<forall>u \<in> set (take 4 (filter ?R scores)). percentage t \<le> percentage u)"
    using top [of _ ?R 4] by blast
  have topD: "\<forall>t \<in> set scores. ?D t \<and> t \<notin> set (take 4 (filter ?D scores)) \<longrightarrow>
      length (take 4 (filter ?D scores)) = 4 \<and>
      (\<forall>u \<in> set (take 4 (filter ?D scores)). percentage t \<le> percentage u)"
    using top [of _ ?D 4] by blast
  show ?thesis
    unfolding Let_def scores_def [symmetric] r
    by (intro conjI refl srt sub len mem [of 5 ?T] mem [of 4 ?R] mem [of 4 ?D] topT topR topD)
qed


lemma categorize_four_scores:
  "categorize_trends [defi_trend, ai_trend, meme_trend, gaming_trend] =
     \<lparr>trending = [defi_trend, ai_trend], rising = [meme_trend],
      declining = [meme_trend, gaming_trend]\<rparr>"
  by (simp add: categorize_trends_def defi_trend_def ai_trend_def meme_trend_def gaming_trend_def)

text \<open>With the four categories the scores are defi, ai, meme, gaming; trending is defi
  and ai, rising is meme, and declining is meme before gaming.\<close>

theorem buckets_in_percentage_order_witness:
  "calculate_trend_scores trend_service known_metas four_counts four_volumes =
     [defi_trend, ai_trend, meme_trend, gaming_trend] \<and>
   categorize_trends (calculate_trend_scores trend_service known_metas four_counts four_volumes) =
     \<lparr>trending = [defi_trend, ai_trend], rising = [meme_trend],
      declining = [meme_trend, gaming_trend]\<rparr> \<and>
   sorted_wrt desc_by_percentage [defi_trend, ai_trend] \<and>
   sorted_wrt desc_by_percentage [meme_trend, gaming_trend] \<and>
   map percentage [defi_trend, ai_trend] = [60, 30] \<and>
   map percentage [meme_trend, gaming_trend] = [7, 3] \<and>
   map momentum [meme_trend, gaming_trend] = [- 1, - 5]"
proof -
  note inst = buckets_in_percentage_order [of trend_service known_metas four_counts four_volumes]
  have "sorted_wrt desc_by_percentage [defi_trend, ai_trend] \<and>
        sorted_wrt desc_by_percentage [meme_trend, gaming_trend]"
    using inst unfolding Let_def four_scores categorize_four_scores categorized.simps
    by blast
  moreover have "map percentage [defi_trend, ai_trend] = [60, 30] \<and>
        map percentage [meme_trend, gaming_trend] = [7, 3] \<and>
        map momentum [meme_trend, gaming_trend] = [- 1, - 5]"
    by (simp add: defi_trend_def ai_trend_def meme_trend_def gaming_trend_def)
  ultimately show ?thesis
    unfolding four_scores categorize_four_scores by simp
qed

text \<open>On the three categories the declining bucket is meme (momentum -1) before gaming
  (momentum -5): it is not sorted by ascending momentum.\<close>

theorem declining_not_in_momentum_order:
  "map name (declining (categorize_trends three_trends)) = [''meme'', ''gaming''] \<and>
   map momentum (declining (categorize_trends three_trends)) = [- 1, - 5] \<and>
   \<not> sorted (map momentum (declining (categorize_trends three_trends)))"
  by (simp add: categorize_three_trends)
    (simp add: meme_trend_def gaming_trend_def)

lemma trending_rising_disjoint_entries:
  "set (trending (categorize_trends ts)) \<inter> set (rising (categorize_trends ts)) = {}"
proof -
  have "t \<notin> set (take 4 (filter (\<lambda>t. 5 \<le> percentage t \<and> percentage t < 10) ts))"
    if "t \<in> set (take 5 (filter (\<lambda>t. 10 \<le> percentage t) ts))" for t
  proof
    assume "t \<in> set (take 4 (filter (\<lambda>t. 5 \<le> percentage t \<and> percentage t < 10) ts))"
    then have "percentage t < 10" by (auto dest: in_set_takeD)
    moreover have "10 \<le> percentage t" using that by (auto dest: in_set_takeD)
    ultimately show False by simp
  qed
  then show ?thesis by (auto simp: categorize_trends_def)
qed

lemma trending_rising_disjoint_names:
  assumes "distinct (map name ts)"
  shows "name ` set (trending (categorize_trends ts)) \<inter>
         name ` set (rising (categorize_trends ts)) = {}"
proof (rule ccontr)
  assume "\<not> ?thesis"
  then obtain t u where t: "t \<in> set (trending (categorize_trends ts))"
    and u: "u \<in> set (rising (categorize_trends ts))" and n: "name t = name u"
    by auto
  have tt: "t \<in> set ts" "10 \<le> percentage t"
    using t by (auto simp: categorize_trends_def dest: in_set_takeD)
  have uu: "u \<in> set ts" "percentage u < 10"
    using u by (auto simp: categorize_trends_def dest: in_set_takeD)
  have "inj_on name (set ts)" using assms by (simp add: distinct_map)
  then have "t = u" using n tt(1) uu(1) by (rule inj_onD)
  then show False using tt(2) uu(2) by simp
qed

text \<open>
  Claim C5, as the code has it: no entry is in both the trending and the rising bucket, and
  when the categories of the input are distinct no category is in both.  The declining
  bucket is filled by momentum alone: on the three categories trending is ai, rising is meme
  and declining is meme and gaming.
\<close>

theorem trending_rising_disjoint:
  "set (trending (categorize_trends ts)) \<inter> set (rising (categorize_trends ts)) = {} \<and>
   (distinct (map name ts) \<longrightarrow>
      name ` set (trending (categorize_trends ts)) \<inter>
      name ` set (rising (categorize_trends ts)) = {}) \<and>
   categorize_trends three_trends =
     \<lparr>trending = [ai_trend], rising = [meme_trend], declining = [meme_trend, gaming_trend]\<rparr>"
  using trending_rising_disjoint_entries [of ts] trending_rising_disjoint_names [of ts]
    categorize_three_trends
  by blast

text \<open>The three categories are distinct; trending holds "ai" and rising holds "meme".\<close>

theorem trending_rising_disjoint_witness:
  "distinct (map name three_trends) \<and>
   name ` set (trending (categorize_trends three_trends)) = {''ai''} \<and>
   name ` set (rising (categorize_trends three_trends)) = {''meme''} \<and>
   name ` set (trending (categorize_trends three_trends)) \<inter>
   name ` set (rising (categorize_trends three_trends)) = {}"
proof -
  have d: "distinct (map name three_trends)"
    by (simp add: three_trends_def ai_trend_def meme_trend_def gaming_trend_def)
  have "name ` set (trending (categorize_trends three_trends)) \<inter>
        name ` set (rising (categorize_trends three_trends)) = {}"
    using trending_rising_disjoint [of three_trends] d by blast
  moreover have "name ` set (trending (categorize_trends three_trends)) = {''ai''}"
    "name ` set (rising (categorize_trends three_trends)) = {''meme''}"
    by (simp_all add: categorize_three_trends) (simp_all add: ai_trend_def meme_trend_def)
  ultimately show ?thesis using d by blast
qed

text \<open>On the three categories "meme" is in the rising bucket and in the declining bucket.\<close>

theorem meme_rising_and_declining:
  "meme_trend \<in> set (rising (categorize_trends three_trends)) \<and>
   meme_trend \<in> set (declining (categorize_trends three_trends))"
  by (simp add: categorize_three_trends)


end
